theory Spec2Isabelle
  imports Complex_Main "HOL-Library.Word"
begin

section \<open>Values shared by place.py and connect.py\<close>

text \<open>
  Pixels are tuples of unsigned bytes, as \<^verbatim>\<open>np.array\<close> of an image holds them.
  Times are seconds since the epoch; Python computes them in floating point
  (\<^verbatim>\<open>time.time()\<close>, true division by 1000) and the model uses exact rationals, so
  rounding is outside the model.
\<close>

type_synonym byte = "8 word"
type_synonym rgb = "byte \<times> byte \<times> byte"
type_synonym rgba = "byte \<times> byte \<times> byte \<times> byte"
type_synonym username = string
type_synonym token = string

datatype error =
    KeyError string
  | AttributeError string
  | TypeError string
  | ValueError string
  | UnboundLocalError string
  | SystemExit int
  | External string

text \<open>
  An image object of the imaging library: its \<^verbatim>\<open>size\<close> is (width, height) and a pixel
  is read at (x, y). \<^verbatim>\<open>np.array(image)\<close> has one row per y and one column per x.
\<close>

record 'p image =
  im_size :: "nat \<times> nat"
  getpixel :: "int \<Rightarrow> int \<Rightarrow> 'p"

definition np_array :: "'p image \<Rightarrow> 'p list list" where
  "np_array im =
     map (\<lambda>y. map (\<lambda>x. getpixel im (int x) (int y)) [0..<fst (im_size im)])
       [0..<snd (im_size im)]"

text \<open>
  \<^verbatim>\<open>Image.crop((left, upper, right, lower))\<close> of the imaging library: the result has size
  (right - left, lower - upper); a position outside the source image is black.
  \<^verbatim>\<open>convert("RGB")\<close> of an RGB image is a copy.
\<close>

definition crop :: "rgb image \<Rightarrow> int \<times> int \<times> int \<times> int \<Rightarrow> rgb image" where
  "crop im box =
     (case box of (l, u, r, d) \<Rightarrow>
        \<lparr>im_size = (nat (r - l), nat (d - u)),
         getpixel = (\<lambda>x y.
           if 0 \<le> x + l \<and> x + l < int (fst (im_size im)) \<and>
              0 \<le> y + u \<and> y + u < int (snd (im_size im))
           then getpixel im (x + l) (y + u) else (0, 0, 0))\<rparr>)"

definition vadd :: "int \<times> int \<Rightarrow> int \<times> int \<Rightarrow> int \<times> int" where
  "vadd a b = (fst a + fst b, snd a + snd b)"

text \<open>The canvas JSON: \<^verbatim>\<open>canvas['offset']['template_api']\<close> and \<^verbatim>\<open>canvas['offset']['visual']\<close>.\<close>

record canvas_cfg =
  offset_template_api :: "int \<times> int"
  offset_visual :: "int \<times> int"

section \<open>PlaceClient\<close>

text \<open>
  The attributes of a \<^verbatim>\<open>PlaceClient\<close> that the methods below read or write. The two
  \<^verbatim>\<open>threading.Event\<close> flags and \<^verbatim>\<open>stop_event\<close> are booleans. \<^verbatim>\<open>board\<close> is \<^verbatim>\<open>None\<close> until
  the first board refresh. \<^verbatim>\<open>size\<close> is (width, height) of the template image.
  \<^verbatim>\<open>convas\<close> is the attribute that \<^verbatim>\<open>get_wrong_pixel\<close> reads: no line of place.py or
  connect.py assigns it, so it is \<^verbatim>\<open>None\<close> (absent) in every state these files build;
  the field exists because an object may be given attributes from outside.
  Queue entries are ((row, column), colour), as \<^verbatim>\<open>np.argwhere\<close> yields them.
\<close>

record PlaceClient =
  canvas :: canvas_cfg
  convas :: "canvas_cfg option"
  unverified_rate_limit :: rat
  access_tokens :: "username \<rightharpoonup> token"
  access_token_expires_at_timestamp :: "username \<rightharpoonup> rat"
  stop_event :: bool
  board_outdated :: bool
  template_outdated :: bool
  coord :: "int \<times> int"
  size_attr :: "nat \<times> nat"
  template :: "rgba list list"
  board :: "rgb list list option"
  wrong_pixels :: "((nat \<times> nat) \<times> rgb) list"

text \<open>
  \<^verbatim>\<open>__init__\<close> (lines 56-82), given the canvas JSON, the configured rate limit and the
  template data that \<^verbatim>\<open>load_template_data\<close> returned (the process exits when there is
  none).
\<close>

definition init :: "canvas_cfg \<Rightarrow> rat \<Rightarrow> (int \<times> int) \<times> rgba image \<Rightarrow> PlaceClient" where
  "init cv limit data =
     (case data of (c, tmpl) \<Rightarrow>
        \<lparr>canvas = cv, convas = None, unverified_rate_limit = limit,
         access_tokens = Map.empty, access_token_expires_at_timestamp = Map.empty,
         stop_event = False, board_outdated = False, template_outdated = False,
         coord = vadd c (offset_template_api cv), size_attr = im_size tmpl,
         template = np_array tmpl, board = None, wrong_pixels = []\<rparr>)"

subsection \<open>update\<close>

text \<open>
  What one call of \<^verbatim>\<open>update\<close> gets from its collaborators: the result of
  \<^verbatim>\<open>utils.load_template_data\<close> (falsy: \<^verbatim>\<open>None\<close>), the canvas JSON read again, and
  \<^verbatim>\<open>connect.get_board\<close>, which may raise.
\<close>

record update_io =
  load_template_data :: "((int \<times> int) \<times> rgba image) option"
  get_json_data :: canvas_cfg
  get_board :: "token \<Rightarrow> error + rgb image"

text \<open>
  Lines 103-114. The flag is cleared before \<^verbatim>\<open>self.access_tokens[username]\<close> is looked
  up, so an exception leaves the state changed; the result is the exception, if any, and
  the state.
\<close>

definition update_board :: "update_io \<Rightarrow> username \<Rightarrow> PlaceClient \<Rightarrow> error option \<times> PlaceClient" where
  "update_board io username self =
     (if board_outdated self \<or> board self = None then
        (let self1 = self\<lparr>board_outdated := False\<rparr> in
         case access_tokens self1 username of
           None \<Rightarrow> (Some (KeyError username), self1)
         | Some tok \<Rightarrow>
             (case get_board io tok of
                Inl e \<Rightarrow> (Some e, self1)
              | Inr img \<Rightarrow>
                  (None,
                   self1\<lparr>board := Some (np_array (crop img
                            (fst (coord self1), snd (coord self1),
                             fst (coord self1) + int (fst (size_attr self1)),
                             snd (coord self1) + int (snd (size_attr self1))))),
                         wrong_pixels := []\<rparr>)))
      else (None, self))"

text \<open>Lines 86-114.\<close>

definition update :: "update_io \<Rightarrow> username \<Rightarrow> PlaceClient \<Rightarrow> error option \<times> PlaceClient" where
  "update io username self =
     (if template_outdated self then
        (case load_template_data io of
           None \<Rightarrow> (None, self\<lparr>template_outdated := False\<rparr>)
         | Some (c, tmpl) \<Rightarrow>
             update_board io username
               (self\<lparr>template_outdated := False,
                     canvas := get_json_data io,
                     coord := vadd c (offset_template_api (get_json_data io)),
                     size_attr := im_size tmpl,
                     template := np_array tmpl\<rparr>))
      else update_board io username self)"

subsection \<open>compute_wrong_pixels\<close>

fun alpha :: "rgba \<Rightarrow> byte" where
  "alpha (r, g, b, a) = a"

fun rgb_of :: "rgba \<Rightarrow> rgb" where
  "rgb_of (r, g, b, a) = (r, g, b)"

text \<open>
  \<^verbatim>\<open>(self.board != target_rgb).any(axis=-1)\<close>: per position, whether any channel differs.
  Comparing \<^verbatim>\<open>None\<close> with an array is true at every position. Arrays of different shapes
  do not compare; the model raises there (NumPy's broadcasting of an axis of length one
  is not modelled, nor is an array with no rows but a width).
\<close>

definition ne_any :: "rgb list list option \<Rightarrow> rgb list list \<Rightarrow> bool list list option" where
  "ne_any b target_rgb =
     (case b of
        None \<Rightarrow> Some (map (map (\<lambda>_. True)) target_rgb)
      | Some g \<Rightarrow>
          if map length g = map length target_rgb
          then Some (map2 (map2 (\<lambda>p q. p \<noteq> q)) g target_rgb)
          else None)"

text \<open>\<^verbatim>\<open>np.argwhere\<close> of a two-dimensional mask: the (row, column) of every true cell, row by row.\<close>

definition argwhere :: "bool list list \<Rightarrow> (nat \<times> nat) list" where
  "argwhere m =
     concat (map (\<lambda>i. map (\<lambda>j. (i, j)) (filter (\<lambda>j. m ! i ! j) [0..<length (m ! i)]))
       [0..<length m])"

text \<open>
  Lines 140-154. \<^verbatim>\<open>ColorMapper.closest_color\<close> lives in src/mappings, which is not among
  the sources; it is the parameter \<open>cc\<close>, applied to each pixel.
\<close>

definition compute_wrong_pixels :: "(rgb \<Rightarrow> rgb) \<Rightarrow> PlaceClient \<Rightarrow> error option \<times> PlaceClient" where
  "compute_wrong_pixels cc self =
     (if wrong_pixels self \<noteq> [] then (None, self)
      else
        (let target_a = map (map alpha) (template self);
             target_rgb = map (map (\<lambda>p. cc (rgb_of p))) (template self)
         in case ne_any (board self) target_rgb of
              None \<Rightarrow> (Some (ValueError ''operands could not be broadcast together''), self)
            | Some ne \<Rightarrow>
                (let coords = argwhere (map2 (map2 (\<lambda>d a. d \<and> a = 255)) ne target_a)
                 in (None,
                     self\<lparr>wrong_pixels :=
                            map (\<lambda>c. (c, target_rgb ! fst c ! snd c)) coords\<rparr>))))"

subsection \<open>get_wrong_pixel\<close>

text \<open>
  One observation per iteration of the polling loop: whether
  \<^verbatim>\<open>stop_event.wait(timeout=10)\<close> found the event set by the coordinator during the wait, and
  what \<^verbatim>\<open>update\<close> gets from its collaborators.
\<close>

record acquire_io =
  stop_set10 :: bool
  upd :: update_io

text \<open>
  Lines 116-138. The loop may poll forever; the list of observations is its fuel and
  \<open>None\<close> means the observations ran out before the method returned. \<open>Inr None\<close> is the
  method falling off its end after the stop event (Python returns \<^verbatim>\<open>None\<close>).
  \<^verbatim>\<open>list.pop()\<close> removes the last entry. The arguments of the log call are evaluated
  after the pop and before the \<^verbatim>\<open>return\<close>; reading \<^verbatim>\<open>self.convas\<close> raises when the object
  has no such attribute.
\<close>

fun get_wrong_pixel ::
  "(rgb \<Rightarrow> rgb) \<Rightarrow> acquire_io list \<Rightarrow> username \<Rightarrow> PlaceClient \<Rightarrow>
     ((error + ((nat \<times> nat) \<times> rgb) option) \<times> PlaceClient) option" where
  "get_wrong_pixel cc [] username self = None"
| "get_wrong_pixel cc (io # ios) username self =
     (let self0 = self\<lparr>stop_event := (stop_event self \<or> stop_set10 io)\<rparr> in
      if stop_event self0 then Some (Inr None, self0)
      else
        (case update (upd io) username self0 of
           (Some e, self1) \<Rightarrow> Some (Inl e, self1)
         | (None, self1) \<Rightarrow>
             (case compute_wrong_pixels cc self1 of
                (Some e, self2) \<Rightarrow> Some (Inl e, self2)
              | (None, self2) \<Rightarrow>
                  if wrong_pixels self2 \<noteq> [] then
                    (let entry = last (wrong_pixels self2);
                         self3 = self2\<lparr>wrong_pixels := butlast (wrong_pixels self2)\<rparr>
                     in case convas self3 of
                          None \<Rightarrow> Some (Inl (AttributeError ''convas''), self3)
                        | Some cv \<Rightarrow> Some (Inr (Some entry), self3))
                  else get_wrong_pixel cc ios username self2)))"

section \<open>connect.py\<close>

subsection \<open>login\<close>

text \<open>
  The \<^verbatim>\<open>session\<close> object scraped from the page: whether it has the key \<^verbatim>\<open>error\<close>, and the
  values of \<^verbatim>\<open>accessToken\<close> and \<^verbatim>\<open>expiresIn\<close> when present.
\<close>

record session =
  session_error :: bool
  accessToken :: "token option"
  expiresIn :: "rat option"

text \<open>
  What \<^verbatim>\<open>login\<close> gets from the network: the status code of the last login POST (\<open>None\<close>
  when the retry loop of lines 262-302 was left by the stop event with no response, so
  that \<^verbatim>\<open>r\<close> is unbound), and the session data of the page fetched afterwards, or the
  exception that fetching and parsing it raised.
\<close>

record login_io =
  post_status :: "int option"
  page_session :: "error + session"

text \<open>
  Lines 304-341. A status other than 200 logs and returns; \<^verbatim>\<open>exit(1)\<close> raises
  \<^verbatim>\<open>SystemExit\<close>; the token is stored before \<^verbatim>\<open>expiresIn\<close> is read.
\<close>

definition login :: "login_io \<Rightarrow> username \<Rightarrow> rat \<Rightarrow> PlaceClient \<Rightarrow> error option \<times> PlaceClient" where
  "login io index current_time self =
     (case post_status io of
        None \<Rightarrow> (Some (UnboundLocalError ''r''), self)
      | Some status_code \<Rightarrow>
          if status_code \<noteq> 200 then (None, self)
          else
            (case page_session io of
               Inl e \<Rightarrow> (Some e, self)
             | Inr response_data \<Rightarrow>
                 if session_error response_data then (Some (SystemExit 1), self)
                 else
                   (case accessToken response_data of
                      None \<Rightarrow> (Some (KeyError ''accessToken''), self)
                    | Some tok \<Rightarrow>
                        (let self1 = self\<lparr>access_tokens := (access_tokens self)(index \<mapsto> tok)\<rparr>
                         in case expiresIn response_data of
                              None \<Rightarrow> (Some (KeyError ''expiresIn''), self1)
                            | Some secs \<Rightarrow>
                                (None,
                                 self1\<lparr>access_token_expires_at_timestamp :=
                                   (access_token_expires_at_timestamp self1)
                                     (index \<mapsto> current_time + secs)\<rparr>)))))"

subsection \<open>set_pixel\<close>

text \<open>The arguments \<^verbatim>\<open>connect.set_pixel\<close> is called with (after \<^verbatim>\<open>self\<close>).\<close>

record set_pixel_args =
  sp_coord :: "int \<times> int"
  sp_color_index :: int
  sp_canvas_index :: int
  sp_access_token :: token

text \<open>
  The JSON of the response, by the branches \<^verbatim>\<open>set_pixel_and_check_ratelimit\<close> takes:
  \<^verbatim>\<open>data\<close> is not null and holds \<^verbatim>\<open>nextAvailablePixelTimestamp\<close> (milliseconds); the first
  error has no \<^verbatim>\<open>extensions\<close>; the first error's extensions hold \<^verbatim>\<open>nextAvailablePixelTs\<close>
  (milliseconds); or the request or a lookup raises.
\<close>

datatype response =
    Placed rat
  | ErrorPlain
  | RateLimited rat
  | Malformed error

section \<open>Placement and the worker loop\<close>

text \<open>
  \<^verbatim>\<open>ColorMapper\<close> (src/mappings) is not among the sources; what place.py uses of it are
  parameters: \<^verbatim>\<open>closest_color\<close> per pixel, \<^verbatim>\<open>COLOR_MAP[rgb_to_hex(rgb)]\<close> (a missing key
  raises) and \<^verbatim>\<open>color_id_to_name\<close> (\<open>None\<close> when it raises).
\<close>

record ColorMapper =
  closest_color :: "rgb \<Rightarrow> rgb"
  COLOR_MAP :: "rgb \<rightharpoonup> int"
  color_id_to_name :: "int \<rightharpoonup> string"

definition get_visual_position :: "PlaceClient \<Rightarrow> int \<times> int \<Rightarrow> int \<times> int" where
  "get_visual_position self c = vadd c (offset_visual (canvas self))"

text \<open>
  Lines 159-206, with \<^verbatim>\<open>connect.set_pixel\<close> as the parameter \<open>set_pixel\<close>. The result is
  the call made, if any, and the value returned or the exception raised. \<^verbatim>\<open>//\<close> and \<^verbatim>\<open>%\<close>
  round towards minus infinity, as \<open>div\<close> and \<open>mod\<close> on \<open>int\<close> do.
\<close>

definition set_pixel_and_check_ratelimit ::
  "ColorMapper \<Rightarrow> (set_pixel_args \<Rightarrow> response) \<Rightarrow> int \<Rightarrow> int \<times> int \<Rightarrow> username \<Rightarrow>
     PlaceClient \<Rightarrow> set_pixel_args option \<times> (error + rat)" where
  "set_pixel_and_check_ratelimit cm set_pixel color_index c username self =
     (let subcoord = (fst c div 1000, snd c div 1000);
          subcanvas = fst subcoord + 3 * snd subcoord
      in case color_id_to_name cm color_index of
           None \<Rightarrow> (None, Inl (KeyError ''color_id_to_name''))
         | Some name \<Rightarrow>
             (case access_tokens self username of
                None \<Rightarrow> (None, Inl (KeyError username))
              | Some tok \<Rightarrow>
                  (let args = \<lparr>sp_coord = (fst c mod 1000, snd c mod 1000),
                               sp_color_index = color_index,
                               sp_canvas_index = subcanvas,
                               sp_access_token = tok\<rparr>
                   in (Some args,
                       case set_pixel args of
                         Placed t \<Rightarrow> Inr (t / 1000)
                       | ErrorPlain \<Rightarrow> Inr 60
                       | RateLimited t \<Rightarrow> Inr (t / 1000)
                       | Malformed e \<Rightarrow> Inl e))))"

subsection \<open>task\<close>

text \<open>The condition of lines 219-224: a falsy (zero) expiry never counts as expired.\<close>

definition needs_login :: "username \<Rightarrow> rat \<Rightarrow> PlaceClient \<Rightarrow> bool" where
  "needs_login username current_time self =
     (case access_tokens self username of
        None \<Rightarrow> True
      | Some tok \<Rightarrow>
          (case access_token_expires_at_timestamp self username of
             None \<Rightarrow> True
           | Some e \<Rightarrow> e \<noteq> 0 \<and> current_time \<ge> e))"

text \<open>Lines 218-226: the value \<^verbatim>\<open>login\<close> returns is not looked at.\<close>

definition task_auth :: "login_io \<Rightarrow> username \<Rightarrow> rat \<Rightarrow> PlaceClient \<Rightarrow> error option \<times> PlaceClient" where
  "task_auth io username current_time self =
     (if needs_login username current_time self
      then login io username current_time self
      else (None, self))"

text \<open>
  How the rest of a cycle ends: the loop goes on with a new \<^verbatim>\<open>time_to_wait\<close>, the method
  returns, or an exception leaves it.
\<close>

datatype step = Continue rat | Return | Raise error

text \<open>
  Lines 231-246, from the pair that \<^verbatim>\<open>get_wrong_pixel\<close> returned. The absolute
  coordinate is \<^verbatim>\<open>self.coord + relative\<close>, component by component.
\<close>

definition task_place ::
  "ColorMapper \<Rightarrow> (set_pixel_args \<Rightarrow> response) \<Rightarrow> username \<Rightarrow> rat \<Rightarrow>
     (nat \<times> nat) \<times> rgb \<Rightarrow> PlaceClient \<Rightarrow> step" where
  "task_place cm set_pixel username current_time entry self =
     (case entry of (relative, new_rgb) \<Rightarrow>
        (case COLOR_MAP cm new_rgb of
           None \<Rightarrow> Raise (KeyError ''COLOR_MAP'')
         | Some color_index \<Rightarrow>
             (case snd (set_pixel_and_check_ratelimit cm set_pixel color_index
                          (vadd (coord self) (int (fst relative), int (snd relative)))
                          username self) of
                Inl e \<Rightarrow> Raise e
              | Inr next_placement_time \<Rightarrow>
                  (let time_to_wait = next_placement_time - current_time
                   in if time_to_wait > 10000 then Return else Continue time_to_wait))))"

text \<open>
  One observation per cycle of the worker loop: the answer of
  \<^verbatim>\<open>stop_event.wait(time_to_wait)\<close> (whether the coordinator set the event during a wait
  of that length; a timeout that is not positive does not wait at all), \<^verbatim>\<open>time.time()\<close>,
  and what the three stages get from their collaborators.
\<close>

record cycle_io =
  stop_set :: "rat \<Rightarrow> bool"
  time_now :: rat
  login_obs :: login_io
  acquire_obs :: "acquire_io list"
  set_pixel_obs :: "set_pixel_args \<Rightarrow> response"

text \<open>How a worker's \<^verbatim>\<open>task\<close> ends: by the stop event, by the ban check, or by an exception.\<close>

datatype task_end = Stopped | Banned | Died error

text \<open>
  Lines 214-246. \<open>None\<close>: the observations ran out while the loop was still running.
  Unpacking the \<^verbatim>\<open>None\<close> that \<^verbatim>\<open>get_wrong_pixel\<close> returns after the stop event raises.
\<close>

fun task_loop ::
  "ColorMapper \<Rightarrow> cycle_io list \<Rightarrow> username \<Rightarrow> rat \<Rightarrow> PlaceClient \<Rightarrow>
     (task_end \<times> PlaceClient) option" where
  "task_loop cm [] username time_to_wait self = None"
| "task_loop cm (io # ios) username time_to_wait self =
     (let self0 = self\<lparr>stop_event := (stop_event self \<or> stop_set io time_to_wait)\<rparr> in
      if stop_event self0 then Some (Stopped, self0)
      else
        (case task_auth (login_obs io) username (time_now io) self0 of
           (Some e, self1) \<Rightarrow> Some (Died e, self1)
         | (None, self1) \<Rightarrow>
             (case get_wrong_pixel (closest_color cm) (acquire_obs io) username self1 of
                None \<Rightarrow> None
              | Some (Inl e, self2) \<Rightarrow> Some (Died e, self2)
              | Some (Inr None, self2) \<Rightarrow>
                  Some (Died (TypeError ''cannot unpack non-iterable NoneType object''), self2)
              | Some (Inr (Some entry), self2) \<Rightarrow>
                  (case task_place cm (set_pixel_obs io) username (time_now io) entry self2 of
                     Raise e \<Rightarrow> Some (Died e, self2)
                   | Return \<Rightarrow> Some (Banned, self2)
                   | Continue w \<Rightarrow> task_loop cm ios username w self2))))"

definition task :: "ColorMapper \<Rightarrow> cycle_io list \<Rightarrow> username \<Rightarrow> PlaceClient \<Rightarrow>
     (task_end \<times> PlaceClient) option" where
  "task cm ios username self = task_loop cm ios username (unverified_rate_limit self) self"

section \<open>Agreement of the recorded size with the template\<close>

text \<open>
  The template's recorded size agrees with its pixel array: \<^verbatim>\<open>__init__\<close> and \<^verbatim>\<open>update\<close>
  always assign \<^verbatim>\<open>self.size\<close> and \<^verbatim>\<open>self.template\<close> from the same image.
\<close>

definition size_ok :: "PlaceClient \<Rightarrow> bool" where
  "size_ok self =
     (map length (template self) = replicate (snd (size_attr self)) (fst (size_attr self)))"

section \<open>Example data\<close>

text \<open>
  A quantiser for the examples: the nearest corner of the colour cube (an eight-colour
  palette). The examples use the colour identifiers 27, 2, 8 and 31 for black, red,
  green and white.
\<close>

definition ex_closest :: "rgb \<Rightarrow> rgb" where
  "ex_closest c =
     (case c of (r, g, b) \<Rightarrow>
        (if r < 128 then 0 else 255, if g < 128 then 0 else 255, if b < 128 then 0 else 255))"

definition ex_mapper :: ColorMapper where
  "ex_mapper =
     \<lparr>closest_color = ex_closest,
      COLOR_MAP = [(0, 0, 0) \<mapsto> 27, (255, 0, 0) \<mapsto> 2, (0, 255, 0) \<mapsto> 8, (255, 255, 255) \<mapsto> 31],
      color_id_to_name = (\<lambda>i. Some ''colour'')\<rparr>"

definition ex_canvas :: canvas_cfg where
  "ex_canvas = \<lparr>offset_template_api = (0, 0), offset_visual = (-1500, -1000)\<rparr>"

text \<open>
  A 2 x 2 template at (1500, 2700): nearly red, green, a transparent blue, white. The
  client \<open>ex_client\<close> holds it with a board whose first pixel is already red, a token for
  alice that expires at 1700003600, and an empty queue.
\<close>

definition ex_template :: "rgba image" where
  "ex_template =
     \<lparr>im_size = (2, 2),
      getpixel = (\<lambda>x y.
        if (x, y) = (0, 0) then (250, 10, 10, 255)
        else if (x, y) = (1, 0) then (0, 255, 0, 255)
        else if (x, y) = (0, 1) then (0, 0, 255, 0)
        else (255, 255, 255, 255))\<rparr>"

definition ex_client :: PlaceClient where
  "ex_client =
     \<lparr>canvas = \<lparr>offset_template_api = (0, 0), offset_visual = (-1500, -1000)\<rparr>,
      convas = None,
      unverified_rate_limit = 0,
      access_tokens = [''alice'' \<mapsto> ''token-a''],
      access_token_expires_at_timestamp = [''alice'' \<mapsto> 1700003600],
      stop_event = False, board_outdated = False, template_outdated = False,
      coord = (1500, 2700), size_attr = (2, 2),
      template = [[(250, 10, 10, 255), (0, 255, 0, 255)], [(0, 0, 255, 0), (255, 255, 255, 255)]],
      board = Some [[(255, 0, 0), (0, 0, 0)], [(0, 0, 0), (0, 0, 0)]],
      wrong_pixels = []\<rparr>"

text \<open>A reloaded template of one black pixel, and a remote canvas that is black everywhere.\<close>

definition ex_small_template :: "rgba image" where
  "ex_small_template = \<lparr>im_size = (1, 1), getpixel = (\<lambda>x y. (0, 0, 0, 255))\<rparr>"

definition ex_black_board :: "rgb image" where
  "ex_black_board = \<lparr>im_size = (3000, 3000), getpixel = (\<lambda>x y. (0, 0, 0))\<rparr>"

definition ex_update_io :: update_io where
  "ex_update_io =
     \<lparr>load_template_data = Some ((1500, 2700), ex_small_template),
      get_json_data = \<lparr>offset_template_api = (0, 0), offset_visual = (-1500, -1000)\<rparr>,
      get_board = (\<lambda>tok. Inr ex_black_board)\<rparr>"

definition ex_failed_load :: update_io where
  "ex_failed_load = ex_update_io\<lparr>load_template_data := None\<rparr>"


definition ex_login_ok :: login_io where
  "ex_login_ok =
     \<lparr>post_status = Some 200,
      page_session =
        Inr \<lparr>session_error = False, accessToken = Some ''token-a'', expiresIn = Some 3600\<rparr>\<rparr>"

text \<open>The client as \<^verbatim>\<open>__init__\<close> builds it, after alice's first successful login.\<close>

definition ex_started :: PlaceClient where
  "ex_started =
     snd (login ex_login_ok ''alice'' 1700000000 (init ex_canvas 0 ((1500, 2700), ex_template)))"

definition ex_acquire :: acquire_io where
  "ex_acquire = \<lparr>stop_set10 = False, upd = ex_update_io\<rparr>"


section \<open>Auxiliary facts\<close>

lemma argwhere_iff:
  "(i, j) \<in> set (argwhere m) \<longleftrightarrow> i < length m \<and> j < length (m ! i) \<and> m ! i ! j"
  by (auto simp: argwhere_def)

lemma map2_rows_length:
  assumes "map length xs = map length ys"
  shows "length (map2 (map2 f) xs ys) = length ys"
proof -
  from assms have "length xs = length ys" by (metis length_map)
  then show ?thesis by simp
qed

lemma map2_rows_row_length:
  assumes "map length xs = map length ys" and "i < length ys"
  shows "length (map2 (map2 f) xs ys ! i) = length (ys ! i)"
proof -
  from assms(1) have len: "length xs = length ys" by (metis length_map)
  with assms have "length (xs ! i) = length (ys ! i)" by (metis nth_map)
  with len assms(2) show ?thesis by simp
qed

lemma map2_rows_nth:
  assumes "map length xs = map length ys" and "i < length ys" and "j < length (ys ! i)"
  shows "map2 (map2 f) xs ys ! i ! j = f (xs ! i ! j) (ys ! i ! j)"
proof -
  from assms(1) have len: "length xs = length ys" by (metis length_map)
  with assms have "length (xs ! i) = length (ys ! i)" by (metis nth_map)
  with len assms(2,3) show ?thesis by simp
qed

lemma length_np_array:
  "map length (np_array im) = replicate (snd (im_size im)) (fst (im_size im))"
  by (simp add: np_array_def comp_def map_replicate_const)

lemma size_ok_init: "size_ok (init cv limit data)"
  by (cases data) (simp add: init_def size_ok_def length_np_array)

lemma update_size_ok: "size_ok self \<Longrightarrow> size_ok (snd (update io username self))"
  by (auto simp: update_def update_board_def size_ok_def length_np_array Let_def
      split: option.splits sum.splits)


lemma update_board_skipped:
  assumes "\<not> board_outdated self" and "board self \<noteq> None"
  shows "update_board io username self = (None, self)"
  using assms by (auto simp: update_board_def)



lemma update_convas: "convas (snd (update io username self)) = convas self"
  by (auto simp: update_def update_board_def Let_def split: option.splits sum.splits)

lemma compute_convas: "convas (snd (compute_wrong_pixels cc self)) = convas self"
  by (auto simp: compute_wrong_pixels_def Let_def split: option.splits)

lemma login_convas: "convas (snd (login io index current_time self)) = convas self"
  by (auto simp: login_def Let_def split: option.splits sum.splits)

lemma init_convas: "convas (init cv limit data) = None"
  by (cases data) (simp add: init_def)

lemma not_stopped_id: "\<not> stop_event self \<Longrightarrow> self\<lparr>stop_event := False\<rparr> = self"
  by (cases self) simp


text \<open>
  Without the attribute \<^verbatim>\<open>convas\<close> the method never returns a pair, however many times
  it polls.
\<close>

lemma get_wrong_pixel_without_convas:
  "convas self = None \<Longrightarrow>
     get_wrong_pixel cc ios username self \<noteq> Some (Inr (Some entry), self')"
proof (induction ios arbitrary: self)
  case Nil
  then show ?case by simp
next
  case (Cons io ios)
  let ?s0 = "self\<lparr>stop_event := (stop_event self \<or> stop_set10 io)\<rparr>"
  obtain e1 s1 where u: "update (upd io) username ?s0 = (e1, s1)"
    by (cases "update (upd io) username ?s0")
  obtain e2 s2 where c: "compute_wrong_pixels cc s1 = (e2, s2)"
    by (cases "compute_wrong_pixels cc s1")
  from u Cons.prems update_convas[of "upd io" username ?s0] have c1: "convas s1 = None" by simp
  from c c1 compute_convas[of cc s1] have c2: "convas s2 = None" by simp
  show ?case
  proof
    assume a: "get_wrong_pixel cc (io # ios) username self = Some (Inr (Some entry), self')"
    then have ns: "\<not> stop_event ?s0" by (auto simp: Let_def split: if_splits)
    from a ns u c have e1: "e1 = None" and e2: "e2 = None"
      by (auto simp: Let_def split: if_splits option.splits)
    show False
    proof (cases "wrong_pixels s2 = []")
      case True
      with a ns u c e1 e2
      have "get_wrong_pixel cc ios username s2 = Some (Inr (Some entry), self')"
        by (simp add: Let_def)
      with Cons.IH[OF c2] show False by simp
    next
      case False
      with a ns u c e1 e2 c2 show False by (simp add: Let_def)
    qed
  qed
qed

text \<open>What \<^verbatim>\<open>login\<close> does on each kind of failure.\<close>

lemma login_rejected:
  "post_status io = Some status_code \<Longrightarrow> status_code \<noteq> 200 \<Longrightarrow>
     login io index current_time self = (None, self)"
  by (simp add: login_def)

lemma login_session_error:
  "post_status io = Some 200 \<Longrightarrow> page_session io = Inr d \<Longrightarrow> session_error d \<Longrightarrow>
     login io index current_time self = (Some (SystemExit 1), self)"
  by (simp add: login_def)

lemma login_missing_token:
  "post_status io = Some 200 \<Longrightarrow> page_session io = Inr d \<Longrightarrow> \<not> session_error d \<Longrightarrow>
     accessToken d = None \<Longrightarrow>
     login io index current_time self = (Some (KeyError ''accessToken''), self)"
  by (simp add: login_def)

lemma task_loop_dies_on_login_exception:
  "\<not> stop_event self \<Longrightarrow> \<not> stop_set io w \<Longrightarrow>
     task_auth (login_obs io) username (time_now io) self = (Some e, self1) \<Longrightarrow>
     task_loop cm (io # ios) username w self = Some (Died e, self1)"
  by (simp add: not_stopped_id)

text \<open>The value returned for each kind of response, and the wait computed from it.\<close>

lemma next_time_by_response:
  assumes "color_id_to_name cm color_index = Some name"
    and "access_tokens self username = Some tok"
  shows "snd (set_pixel_and_check_ratelimit cm (\<lambda>a. resp) color_index c username self) =
           (case resp of
              Placed t \<Rightarrow> Inr (t / 1000)
            | ErrorPlain \<Rightarrow> Inr 60
            | RateLimited t \<Rightarrow> Inr (t / 1000)
            | Malformed e \<Rightarrow> Inl e)"
  using assms by (simp add: set_pixel_and_check_ratelimit_def Let_def)

lemma task_auth_rejected:
  "post_status io = Some status_code \<Longrightarrow> status_code \<noteq> 200 \<Longrightarrow>
     task_auth io username current_time self = (None, self)"
  by (simp add: task_auth_def login_def)

lemma task_place_wait:
  assumes "COLOR_MAP cm new_rgb = Some color_index"
    and "snd (set_pixel_and_check_ratelimit cm set_pixel color_index
           (vadd (coord self) (int (fst relative), int (snd relative))) username self) = Inr r"
  shows "task_place cm set_pixel username current_time (relative, new_rgb) self =
           (if r - current_time > 10000 then Return else Continue (r - current_time))"
  using assms by (simp add: task_place_def Let_def)

text \<open>
  The wait computed for each kind of response, when the call is made: a timestamp \<open>t\<close> in
  milliseconds gives \<open>t / 1000 - current_time\<close>, not clamped; an error without
  \<^verbatim>\<open>extensions\<close> gives \<open>60 - current_time\<close>.
\<close>

lemma task_place_by_response:
  assumes "COLOR_MAP cm new_rgb = Some color_index"
    and "color_id_to_name cm color_index = Some name"
    and "access_tokens self username = Some tok"
  shows "task_place cm (\<lambda>a. Placed t) username current_time (relative, new_rgb) self =
           (if t / 1000 - current_time > 10000 then Return
            else Continue (t / 1000 - current_time))"
    and "task_place cm (\<lambda>a. RateLimited t) username current_time (relative, new_rgb) self =
           (if t / 1000 - current_time > 10000 then Return
            else Continue (t / 1000 - current_time))"
    and "task_place cm (\<lambda>a. ErrorPlain) username current_time (relative, new_rgb) self =
           (if 60 - current_time > 10000 then Return else Continue (60 - current_time))"
  using assms by (simp_all add: task_place_def set_pixel_and_check_ratelimit_def Let_def)

section \<open>The discrepancy queue\<close>

text \<open>
  C2. For a template and a board of identical dimensions and an empty queue,
  \<^verbatim>\<open>compute_wrong_pixels\<close> succeeds, and the queue it computes holds the entry
  ((i, j), c) exactly when (i, j) is a position of the template, the template's alpha
  there is 255, the quantised template colour there differs from the board's colour,
  and c is that quantised colour. So no entry has a template alpha other than 255, and
  every entry carries the quantised colour, not the template's own.
\<close>

theorem compute_wrong_pixels_exact:
  assumes q: "wrong_pixels self = []"
    and b: "board self = Some b"
    and dims: "map length b = map length (template self)"
  shows "fst (compute_wrong_pixels cc self) = None \<and>
         (((i, j), c) \<in> set (wrong_pixels (snd (compute_wrong_pixels cc self))) \<longleftrightarrow>
            i < length (template self) \<and> j < length (template self ! i) \<and>
            alpha (template self ! i ! j) = 255 \<and>
            cc (rgb_of (template self ! i ! j)) \<noteq> b ! i ! j \<and>
            c = cc (rgb_of (template self ! i ! j)))"
proof -
  define t where "t = template self"
  define trgb where "trgb = map (map (\<lambda>p. cc (rgb_of p))) t"
  define ta where "ta = map (map alpha) t"
  define ne where "ne = map2 (map2 (\<lambda>p q. p \<noteq> q)) b trgb"
  define m where "m = map2 (map2 (\<lambda>d a. d \<and> a = 255)) ne ta"
  have d1: "map length b = map length trgb"
    using dims by (simp add: trgb_def t_def comp_def)
  have ltr: "length trgb = length t" "length ta = length t"
    by (simp_all add: trgb_def ta_def)
  have rowlen: "length (trgb ! i) = length (t ! i) \<and> length (ta ! i) = length (t ! i)"
    if "i < length t" for i
    using that by (simp add: trgb_def ta_def)
  have d2: "map length ne = map length ta"
  proof (rule nth_equalityI)
    show "length (map length ne) = length (map length ta)"
      using map2_rows_length[OF d1] by (simp add: ne_def ltr)
  next
    fix k assume "k < length (map length ne)"
    then have k: "k < length t" using map2_rows_length[OF d1] by (simp add: ne_def ltr)
    then show "map length ne ! k = map length ta ! k"
      using map2_rows_row_length[OF d1, of k] map2_rows_length[OF d1] rowlen[OF k]
      by (simp add: ne_def ltr)
  qed
  have res: "compute_wrong_pixels cc self =
      (None, self\<lparr>wrong_pixels := map (\<lambda>c. (c, trgb ! fst c ! snd c)) (argwhere m)\<rparr>)"
    using q b d1
    by (simp add: compute_wrong_pixels_def ne_any_def Let_def m_def ne_def ta_def trgb_def t_def)
  have lm: "length m = length t"
    using map2_rows_length[OF d2] by (simp add: m_def ltr)
  have mrow: "length (m ! i) = length (t ! i)" if "i < length t" for i
    using map2_rows_row_length[OF d2, of i] that rowlen[OF that] by (simp add: m_def ltr)
  have mval: "m ! i ! j = (b ! i ! j \<noteq> cc (rgb_of (t ! i ! j)) \<and> alpha (t ! i ! j) = 255)"
    if "i < length t" "j < length (t ! i)" for i j
  proof -
    have "m ! i ! j = (ne ! i ! j \<and> ta ! i ! j = 255)"
      unfolding m_def using map2_rows_nth[OF d2, of i j] that rowlen[OF that(1)] ltr by simp
    moreover have "ne ! i ! j = (b ! i ! j \<noteq> trgb ! i ! j)"
      unfolding ne_def using map2_rows_nth[OF d1, of i j] that rowlen[OF that(1)] ltr by simp
    moreover have "trgb ! i ! j = cc (rgb_of (t ! i ! j))" "ta ! i ! j = alpha (t ! i ! j)"
      using that by (simp_all add: trgb_def ta_def)
    ultimately show ?thesis by simp
  qed
  have "((i, j), c) \<in> set (wrong_pixels (snd (compute_wrong_pixels cc self))) \<longleftrightarrow>
        (i, j) \<in> set (argwhere m) \<and> c = trgb ! i ! j"
    by (auto simp: res)
  also have "\<dots> \<longleftrightarrow> i < length t \<and> j < length (t ! i) \<and> m ! i ! j \<and> c = trgb ! i ! j"
    using mrow lm by (auto simp: argwhere_iff)
  also have "\<dots> \<longleftrightarrow> i < length t \<and> j < length (t ! i) \<and> alpha (t ! i ! j) = 255 \<and>
           cc (rgb_of (t ! i ! j)) \<noteq> b ! i ! j \<and> c = cc (rgb_of (t ! i ! j))"
    using mval by (auto simp: trgb_def)
  finally have "((i, j), c) \<in> set (wrong_pixels (snd (compute_wrong_pixels cc self))) \<longleftrightarrow>
           i < length (template self) \<and> j < length (template self ! i) \<and>
           alpha (template self ! i ! j) = 255 \<and>
           cc (rgb_of (template self ! i ! j)) \<noteq> b ! i ! j \<and>
           c = cc (rgb_of (template self ! i ! j))"
    by (simp add: t_def)
  then show ?thesis by (simp add: res)
qed

text \<open>
  On the example client: the green pixel is queued with its quantised colour; the nearly
  red pixel is not queued, because its quantised colour is already on the board, nor is
  it queued with its own colour; the transparent pixel is not queued.
\<close>

theorem compute_wrong_pixels_exact_witness:
  "wrong_pixels ex_client = [] \<and>
   board ex_client = Some [[(255, 0, 0), (0, 0, 0)], [(0, 0, 0), (0, 0, 0)]] \<and>
   map length ([[(255, 0, 0), (0, 0, 0)], [(0, 0, 0), (0, 0, 0)]] :: rgb list list) =
     map length (template ex_client) \<and>
   fst (compute_wrong_pixels ex_closest ex_client) = None \<and>
   ((0, 1), (0, 255, 0)) \<in> set (wrong_pixels (snd (compute_wrong_pixels ex_closest ex_client))) \<and>
   ((0, 0), (255, 0, 0)) \<notin> set (wrong_pixels (snd (compute_wrong_pixels ex_closest ex_client))) \<and>
   ((0, 0), (250, 10, 10)) \<notin> set (wrong_pixels (snd (compute_wrong_pixels ex_closest ex_client))) \<and>
   ((1, 0), (0, 0, 255)) \<notin> set (wrong_pixels (snd (compute_wrong_pixels ex_closest ex_client)))"
proof -
  let ?b = "[[(255, 0, 0), (0, 0, 0)], [(0, 0, 0), (0, 0, 0)]] :: rgb list list"
  have h: "wrong_pixels ex_client = []" "board ex_client = Some ?b"
    "map length ?b = map length (template ex_client)"
    by (simp_all add: ex_client_def)
  note e = compute_wrong_pixels_exact [OF h, of ex_closest]
  show ?thesis
    using h e [of 0 1 "(0, 255, 0)"] e [of 0 0 "(255, 0, 0)"] e [of 0 0 "(250, 10, 10)"]
      e [of 1 0 "(0, 0, 255)"]
    by (simp add: ex_client_def ex_closest_def)
qed

text \<open>
  C8. Recomputation is lazy and idempotent: with a non-empty queue
  \<^verbatim>\<open>compute_wrong_pixels\<close> returns the state as it is, queue and all; and calling it a
  second time, with nothing in between, changes nothing that the first call left.
\<close>

theorem compute_wrong_pixels_lazy:
  "(wrong_pixels self \<noteq> [] \<longrightarrow> compute_wrong_pixels cc self = (None, self)) \<and>
   compute_wrong_pixels cc (snd (compute_wrong_pixels cc self)) = compute_wrong_pixels cc self"
proof
  show "wrong_pixels self \<noteq> [] \<longrightarrow> compute_wrong_pixels cc self = (None, self)"
    by (simp add: compute_wrong_pixels_def)
next
  show "compute_wrong_pixels cc (snd (compute_wrong_pixels cc self)) = compute_wrong_pixels cc self"
  proof (cases "wrong_pixels self = []")
    case False
    then show ?thesis by (simp add: compute_wrong_pixels_def)
  next
    case True
    show ?thesis
    proof (cases "ne_any (board self) (map (map (\<lambda>p. cc (rgb_of p))) (template self))")
      case None
      with True show ?thesis by (simp add: compute_wrong_pixels_def)
    next
      case (Some ne)
      with True show ?thesis
        by (simp add: compute_wrong_pixels_def Let_def)
    qed
  qed
qed

theorem compute_wrong_pixels_lazy_witness:
  "wrong_pixels (ex_client\<lparr>wrong_pixels := [((1, 1), (255, 255, 255))]\<rparr>) \<noteq> [] \<and>
   compute_wrong_pixels ex_closest (ex_client\<lparr>wrong_pixels := [((1, 1), (255, 255, 255))]\<rparr>) =
     (None, ex_client\<lparr>wrong_pixels := [((1, 1), (255, 255, 255))]\<rparr>)"
  using compute_wrong_pixels_lazy
    [of "ex_client\<lparr>wrong_pixels := [((1, 1), (255, 255, 255))]\<rparr>" ex_closest]
  by simp

section \<open>Refreshing the cache\<close>







text \<open>
  C10. When \<^verbatim>\<open>template_outdated\<close> is set and the reload yields nothing, \<^verbatim>\<open>update\<close> only
  clears that flag and returns: the board, the \<^verbatim>\<open>board_outdated\<close> flag and the queue are
  as before, whatever their values, and \<^verbatim>\<open>get_board\<close> is not consulted. The board refresh
  is left to a later call, which then goes straight to the board branch.
\<close>

theorem failed_template_reload_skips_board_refresh:
  assumes "template_outdated self" and "load_template_data io = None"
  shows "update io username self = (None, self\<lparr>template_outdated := False\<rparr>) \<and>
         board (snd (update io username self)) = board self \<and>
         board_outdated (snd (update io username self)) = board_outdated self \<and>
         wrong_pixels (snd (update io username self)) = wrong_pixels self \<and>
         update io' username (snd (update io username self)) =
           update_board io' username (snd (update io username self))"
  using assms by (simp add: update_def)

theorem failed_template_reload_skips_board_refresh_witness:
  "template_outdated
     (ex_client\<lparr>template_outdated := True, board_outdated := True, board := None\<rparr>) \<and>
   load_template_data ex_failed_load = None \<and>
   board (snd (update ex_failed_load ''alice''
     (ex_client\<lparr>template_outdated := True, board_outdated := True, board := None\<rparr>))) = None \<and>
   board_outdated (snd (update ex_failed_load ''alice''
     (ex_client\<lparr>template_outdated := True, board_outdated := True, board := None\<rparr>)))"
  using failed_template_reload_skips_board_refresh
    [of "ex_client\<lparr>template_outdated := True, board_outdated := True, board := None\<rparr>"
      ex_failed_load "''alice''" ex_update_io]
  by (simp add: ex_failed_load_def)

section \<open>Acquiring a discrepancy\<close>

text \<open>
  C4 does not hold of the code. A worker's first poll after \<^verbatim>\<open>__init__\<close> and a successful
  login, against a black canvas: the board is fetched, three pixels are found wrong, the
  last is popped, and building the log message reads \<^verbatim>\<open>self.convas\<close> (line 130; the
  attribute is \<^verbatim>\<open>canvas\<close>), which raises. The method returns no pair, and the popped
  entry is gone from the queue.
\<close>

theorem get_wrong_pixel_raises_on_found_pixel:
  "map_option fst (get_wrong_pixel ex_closest [ex_acquire] ''alice'' ex_started) =
     Some (Inl (AttributeError ''convas'')) \<and>
   map_option (\<lambda>r. wrong_pixels (snd r))
       (get_wrong_pixel ex_closest [ex_acquire] ''alice'' ex_started) =
     Some [((0, 0), (255, 0, 0)), ((0, 1), (0, 255, 0))]"
  by (simp add: ex_started_def login_def ex_login_ok_def init_def ex_canvas_def ex_template_def
      np_array_def upt_conv_Cons vadd_def ex_acquire_def ex_update_io_def update_def
      update_board_def crop_def ex_black_board_def compute_wrong_pixels_def ne_any_def
      argwhere_def ex_closest_def Let_def)

section \<open>Authentication\<close>


section \<open>Placement\<close>

text \<open>
  C7. For an absolute coordinate (x, y), \<^verbatim>\<open>set_pixel_and_check_ratelimit\<close> calls
  \<^verbatim>\<open>connect.set_pixel\<close> with (x mod 1000, y mod 1000), the colour identifier it was given,
  the canvas index x div 1000 + 3 * (y div 1000), and the worker's token. (The call is
  made when the token exists and the colour's name for the log message is found.)
\<close>

theorem set_pixel_call_arguments:
  assumes "color_id_to_name cm color_index = Some name"
    and "access_tokens self username = Some tok"
  shows "fst (set_pixel_and_check_ratelimit cm set_pixel color_index (x, y) username self) =
           Some \<lparr>sp_coord = (x mod 1000, y mod 1000),
                 sp_color_index = color_index,
                 sp_canvas_index = x div 1000 + 3 * (y div 1000),
                 sp_access_token = tok\<rparr>"
  using assms by (simp add: set_pixel_and_check_ratelimit_def Let_def)

theorem set_pixel_call_arguments_witness:
  "color_id_to_name ex_mapper 8 = Some ''colour'' \<and>
   access_tokens ex_client ''alice'' = Some ''token-a'' \<and>
   fst (set_pixel_and_check_ratelimit ex_mapper (\<lambda>a. ErrorPlain) 8 (1500, 2701) ''alice''
     ex_client) =
     Some \<lparr>sp_coord = (500, 701), sp_color_index = 8, sp_canvas_index = 7,
           sp_access_token = ''token-a''\<rparr>"
  using set_pixel_call_arguments
    [of ex_mapper 8 "''colour''" ex_client "''alice''" "''token-a''" "\<lambda>a. ErrorPlain" 1500 2701]
  by (simp add: ex_mapper_def ex_client_def)




end
